theory Spec2Isabelle
  imports Main "HOL-Library.Char_ord" "HOL-Library.List_Lexorder"
begin

section \<open>The baseline scan script \<^verbatim>\<open>build/docker/zap-baseline.py\<close>\<close>

text \<open>
  The script is one function, \<^verbatim>\<open>main\<close>. It loads a rule configuration, starts the
  scanner, waits for it, spiders the target, waits for the passive scan, groups the
  alerts by plugin id, prints one line per rule and leaves with an exit code computed
  from five counters. The model below follows the source block by block and keeps its
  names. Exceptions are values of \<open>py_error\<close>; everything outside the script (files,
  network, the scanner's API, the clock) is a record of operations on a world state.
\<close>

subsection \<open>Exceptions and strings\<close>

datatype py_error = IOError | OSError | ValueError | TypeError | IndexError | OtherError

definition TAB :: char where
  "TAB = CHR 0x09"

definition NL :: char where
  "NL = CHR 0x0A"

text \<open>\<^verbatim>\<open>s.startswith(p)\<close>.\<close>

fun startswith :: "string \<Rightarrow> string \<Rightarrow> bool" where
  "startswith s [] = True"
| "startswith [] (p # ps) = False"
| "startswith (c # cs) (p # ps) = (c = p \<and> startswith cs ps)"

text \<open>The first occurrence of a separator: the text before it and the text after it.\<close>

fun split_at :: "char \<Rightarrow> string \<Rightarrow> (string \<times> string) option" where
  "split_at sep [] = None"
| "split_at sep (c # cs) =
     (if c = sep then Some ([], cs)
      else (case split_at sep cs of
              None \<Rightarrow> None
            | Some (a, b) \<Rightarrow> Some (c # a, b)))"

text \<open>\<^verbatim>\<open>s.split(sep, maxsplit)\<close> for a one-character separator.\<close>

fun py_split :: "char \<Rightarrow> nat \<Rightarrow> string \<Rightarrow> string list" where
  "py_split sep 0 s = [s]"
| "py_split sep (Suc n) s =
     (case split_at sep s of
        None \<Rightarrow> [s]
      | Some (a, b) \<Rightarrow> a # py_split sep n b)"

text \<open>\<^verbatim>\<open>s.split(sep)\<close> with no bound: a string of length \<open>n\<close> has at most \<open>n\<close> separators.\<close>

definition py_split_all :: "char \<Rightarrow> string \<Rightarrow> string list" where
  "py_split_all sep s = py_split sep (length s) s"

text \<open>
  \<^verbatim>\<open>s.rstrip()\<close> on a byte string: trailing space, tab, newline, carriage return,
  vertical tab and form feed are removed.
\<close>

definition py_isspace :: "char \<Rightarrow> bool" where
  "py_isspace c = (c \<in> set [CHR '' '', CHR 0x09, CHR 0x0A, CHR 0x0D, CHR 0x0B, CHR 0x0C])"

definition rstrip :: "string \<Rightarrow> string" where
  "rstrip s = rev (dropWhile py_isspace (rev s))"

text \<open>\<^verbatim>\<open>str(n)\<close> for a length or a counter.\<close>

definition digit_char :: "nat \<Rightarrow> char" where
  "digit_char d = char_of (48 + d)"

function str_nat :: "nat \<Rightarrow> string" where
  "str_nat n = (if n < 10 then [digit_char n] else str_nat (n div 10) @ [digit_char (n mod 10)])"
  by pat_completeness auto
termination
  by (relation "measure id") auto

declare str_nat.simps [simp del]

subsection \<open>The rule configuration (lines 155 to 183)\<close>

text \<open>
  \<^verbatim>\<open>config_dict\<close> maps a rule id to the action text of its line, \<^verbatim>\<open>config_msg\<close> to the
  user message. The action is stored as the text found between the first two tabs,
  whatever it is.
\<close>

record config =
  config_dict :: "string \<rightharpoonup> string"
  config_msg :: "string \<rightharpoonup> string"

definition empty_config :: config where
  "empty_config = \<lparr>config_dict = Map.empty, config_msg = Map.empty\<rparr>"

text \<open>
  The body of the loop over the lines, the same in the file branch and in the URL
  branch. Both tuple assignments raise \<^verbatim>\<open>ValueError\<close> when the split does not give
  the number of values they name.
\<close>

definition config_line :: "string \<Rightarrow> config \<Rightarrow> py_error + config" where
  "config_line line c =
     (if \<not> startswith line ''#'' \<and> length line > 1 then
        (case py_split TAB 2 line of
           [key, val, optional] \<Rightarrow>
             (let c1 = c\<lparr>config_dict := (config_dict c)(key \<mapsto> val)\<rparr> in
              if TAB \<in> set optional then
                (case py_split_all TAB (rstrip optional) of
                   [ignore, usermsg] \<Rightarrow> Inr (c1\<lparr>config_msg := (config_msg c1)(key \<mapsto> usermsg)\<rparr>)
                 | _ \<Rightarrow> Inl ValueError)
              else Inr (c1\<lparr>config_msg := (config_msg c1)(key \<mapsto> [])\<rparr>))
         | _ \<Rightarrow> Inl ValueError)
      else Inr c)"

text \<open>The loop itself: the first exception ends it.\<close>

fun config_lines :: "string list \<Rightarrow> config \<Rightarrow> py_error + config" where
  "config_lines [] c = Inr c"
| "config_lines (line # rest) c =
     (case config_line line c of
        Inl e \<Rightarrow> Inl e
      | Inr c' \<Rightarrow> config_lines rest c')"

subsection \<open>Alerts, rules and the grouping (lines 56 to 59 and 249 to 290)\<close>

text \<open>
  An alert and a scan rule are the dictionaries the scanner returns; the script reads
  the keys \<^verbatim>\<open>pluginId\<close>, \<^verbatim>\<open>alert\<close> and \<^verbatim>\<open>url\<close> of an alert and \<^verbatim>\<open>id\<close> and \<^verbatim>\<open>name\<close> of a
  rule. They are taken to be present and to hold strings, as the scanner's JSON has
  them. The rule's fields carry a prefix since \<open>id\<close> is a constant of HOL.
\<close>

record zap_alert =
  pluginId :: string
  alert :: string
  url :: string

record zap_rule =
  rule_id :: string
  rule_name :: string

definition timeout :: nat where
  "timeout = 120"

definition blacklist :: "string list" where
  "blacklist = [''-1'', ''50003'', ''60000'', ''60001'']"

text \<open>
  The dictionaries built here are only read through \<^verbatim>\<open>has_key\<close>, \<^verbatim>\<open>len\<close> and
  \<^verbatim>\<open>sorted(d.iteritems())\<close>, so an association list with one pair per key stands for
  each: \<open>has_key\<close> is a lookup, \<open>len\<close> the length, and the sorted items are the pairs
  sorted by key (the keys of a dictionary are distinct, so the second components are
  never compared).
\<close>

definition has_key :: "('k \<times> 'v) list \<Rightarrow> 'k \<Rightarrow> bool" where
  "has_key d k = (map_of d k \<noteq> None)"

fun dict_set :: "('k \<times> 'v) list \<Rightarrow> 'k \<Rightarrow> 'v \<Rightarrow> ('k \<times> 'v) list" where
  "dict_set [] k v = [(k, v)]"
| "dict_set (p # d) k v = (if fst p = k then (k, v) # d else p # dict_set d k v)"

definition sorted_items :: "(string \<times> 'v) list \<Rightarrow> (string \<times> 'v) list" where
  "sorted_items d = sort_key fst d"

text \<open>
  Lines 251 to 257: one step of the loop over the alerts, and the loop. The list of a
  plugin id is created before it is read, so the lookup always finds it (lemma
  \<open>has_key_dict_set\<close>); the \<open>None\<close> branch stands for a \<^verbatim>\<open>KeyError\<close> that cannot occur.
\<close>

definition add_alert :: "(string \<times> zap_alert list) list \<Rightarrow> zap_alert \<Rightarrow> (string \<times> zap_alert list) list" where
  "add_alert alert_dict a =
     (let plugin_id = pluginId a in
      if plugin_id \<in> set blacklist then alert_dict
      else
        (let d = (if \<not> has_key alert_dict plugin_id then dict_set alert_dict plugin_id [] else alert_dict)
         in (case map_of d plugin_id of
               Some alert_list \<Rightarrow> dict_set d plugin_id (alert_list @ [a])
             | None \<Rightarrow> d)))"

definition group_alerts :: "zap_alert list \<Rightarrow> (string \<times> zap_alert list) list" where
  "group_alerts alerts = foldl add_alert [] alerts"

text \<open>Lines 260 to 265: the rules that are not on the blacklist, by id.\<close>

definition add_rule :: "(string \<times> string) list \<Rightarrow> zap_rule \<Rightarrow> (string \<times> string) list" where
  "add_rule all_dict rule =
     (let plugin_id = rule_id rule in
      if plugin_id \<in> set blacklist then all_dict
      else dict_set all_dict plugin_id (rule_name rule))"

definition build_all_dict :: "zap_rule list \<Rightarrow> (string \<times> string) list" where
  "build_all_dict all_rules = foldl add_rule [] all_rules"

text \<open>Lines 270 to 275: the text of the generated configuration file.\<close>

definition generate_header :: "string list" where
  "generate_header =
     [''# zap-baseline rule configuraion file'' @ [NL],
      ''# Change WARN to IGNORE to ignore rule or FAIL to fail if rule matches'' @ [NL],
      ''# Only the rule identifiers are used - the names are just for info'' @ [NL],
      ''# You can add your own messages to each rule by appending them after a tab on each line.'' @ [NL]]"

definition generate_line :: "string \<times> string \<Rightarrow> string" where
  "generate_line kr = fst kr @ [TAB] @ ''WARN'' @ [TAB] @ ''('' @ snd kr @ '')'' @ [NL]"

definition generate_lines :: "(string \<times> string) list \<Rightarrow> string list" where
  "generate_lines all_dict = generate_header @ map generate_line (sorted_items all_dict)"

text \<open>Lines 278 to 284: the rules with no alert.\<close>

definition add_pass :: "(string \<times> zap_alert list) list \<Rightarrow> (string \<times> string) list \<Rightarrow> zap_rule \<Rightarrow> (string \<times> string) list" where
  "add_pass alert_dict pass_dict rule =
     (let plugin_id = rule_id rule in
      if plugin_id \<in> set blacklist then pass_dict
      else if \<not> has_key alert_dict plugin_id then dict_set pass_dict plugin_id (rule_name rule)
      else pass_dict)"

definition build_pass_dict :: "(string \<times> zap_alert list) list \<Rightarrow> zap_rule list \<Rightarrow> (string \<times> string) list" where
  "build_pass_dict alert_dict all_rules = foldl (add_pass alert_dict) [] all_rules"

definition pass_line :: "string \<times> string \<Rightarrow> string" where
  "pass_line kr = ''PASS: '' @ snd kr @ '' ['' @ fst kr @ '']''"

subsection \<open>The options, the state of a run and the world outside\<close>

text \<open>
  The options as the loop over \<^verbatim>\<open>opts\<close> leaves them (lines 79 to 126); \<^verbatim>\<open>getopt\<close> and
  the conversion of the \<^verbatim>\<open>-m\<close> argument are not modelled.
\<close>

record options =
  config_file :: string
  config_url :: string
  generate :: string
  mins :: int
  detailed_output :: bool
  report_html :: string
  report_xml :: string
  target :: string
  zap_alpha :: bool
  info_unspecified :: bool

text \<open>
  The variables of \<^verbatim>\<open>main\<close> that outlive the \<^verbatim>\<open>try\<close> block, what the run has printed,
  the warnings it has logged, the files it has opened for writing and what it has
  written to them, and the state of the world outside.
\<close>

record 'w st =
  pass_count :: nat
  warn_count :: nat
  fail_count :: nat
  info_count :: nat
  ignore_count :: nat
  printed :: "string list"
  warnings :: "string list"
  opened :: "string list"
  written :: "(string \<times> string) list"
  world :: 'w

definition init_st :: "'w \<Rightarrow> 'w st" where
  "init_st w = \<lparr>pass_count = 0, warn_count = 0, fail_count = 0, info_count = 0,
     ignore_count = 0, printed = [], warnings = [], opened = [], written = [], world = w\<rparr>"

text \<open>
  Every call that leaves the script is an operation on the world: it returns what the
  call returned (or the exception it raised) and the world after it. The two status
  calls return the text the API gives; the clock is read in microseconds.
\<close>

record 'w zap_world =
  path_exists :: "string \<Rightarrow> 'w \<Rightarrow> bool \<times> 'w"
  port_taken :: "'w \<Rightarrow> bool \<times> 'w"
  read_file :: "string \<Rightarrow> 'w \<Rightarrow> (py_error + string list) \<times> 'w"
  read_url :: "string \<Rightarrow> 'w \<Rightarrow> (py_error + string list) \<times> 'w"
  start_zap :: "int \<Rightarrow> bool \<Rightarrow> 'w \<Rightarrow> py_error option \<times> 'w"
  core_version :: "'w \<Rightarrow> (py_error + string) \<times> 'w"
  urlopen :: "string \<Rightarrow> 'w \<Rightarrow> py_error option \<times> 'w"
  spider_scan :: "string \<Rightarrow> 'w \<Rightarrow> (py_error + string) \<times> 'w"
  spider_status :: "string \<Rightarrow> 'w \<Rightarrow> (py_error + string) \<times> 'w"
  records_to_scan :: "'w \<Rightarrow> (py_error + string) \<times> 'w"
  core_urls :: "'w \<Rightarrow> (py_error + string list) \<times> 'w"
  core_alerts :: "'w \<Rightarrow> (py_error + zap_alert list) \<times> 'w"
  pscan_scanners :: "'w \<Rightarrow> (py_error + zap_rule list) \<times> 'w"
  core_htmlreport :: "'w \<Rightarrow> (py_error + string) \<times> 'w"
  core_xmlreport :: "'w \<Rightarrow> (py_error + string) \<times> 'w"
  core_shutdown :: "'w \<Rightarrow> py_error option \<times> 'w"
  open_write :: "string \<Rightarrow> 'w \<Rightarrow> py_error option \<times> 'w"
  file_write :: "string \<Rightarrow> string \<Rightarrow> 'w \<Rightarrow> py_error option \<times> 'w"
  now :: "'w \<Rightarrow> int \<times> 'w"
  sleep :: "nat \<Rightarrow> 'w \<Rightarrow> 'w"

definition call :: "('w \<Rightarrow> 'r \<times> 'w) \<Rightarrow> 'w st \<Rightarrow> 'r \<times> 'w st" where
  "call f st = (case f (world st) of (r, w) \<Rightarrow> (r, st\<lparr>world := w\<rparr>))"

definition do_sleep :: "'w zap_world \<Rightarrow> nat \<Rightarrow> 'w st \<Rightarrow> 'w st" where
  "do_sleep api n st = st\<lparr>world := sleep api n (world st)\<rparr>"

definition print :: "string \<Rightarrow> 'w st \<Rightarrow> 'w st" where
  "print s st = st\<lparr>printed := printed st @ [s]\<rparr>"

definition log_warning :: "string \<Rightarrow> 'w st \<Rightarrow> 'w st" where
  "log_warning s st = st\<lparr>warnings := warnings st @ [s]\<rparr>"

text \<open>\<^verbatim>\<open>usage()\<close> prints its lines; one entry stands for them.\<close>

definition usage :: "'w st \<Rightarrow> 'w st" where
  "usage st = print ''Usage: zap-baseline.py -t <target> [options]'' st"

text \<open>
  \<^verbatim>\<open>with open(path, 'w') as f\<close> followed by writes: the file is opened, then each text
  is written; the first exception ends the block.
\<close>

definition open_w :: "'w zap_world \<Rightarrow> string \<Rightarrow> 'w st \<Rightarrow> py_error option \<times> 'w st" where
  "open_w api path st =
     (case call (open_write api path) st of
        (Some e, st1) \<Rightarrow> (Some e, st1)
      | (None, st1) \<Rightarrow> (None, st1\<lparr>opened := opened st1 @ [path]\<rparr>))"

fun write_all :: "'w zap_world \<Rightarrow> string \<Rightarrow> string list \<Rightarrow> 'w st \<Rightarrow> py_error option \<times> 'w st" where
  "write_all api path [] st = (None, st)"
| "write_all api path (s # ss) st =
     (case call (file_write api path s) st of
        (Some e, st1) \<Rightarrow> (Some e, st1)
      | (None, st1) \<Rightarrow> write_all api path ss (st1\<lparr>written := written st1 @ [(path, s)]\<rparr>))"

subsection \<open>The rule lines and the counters (lines 292 to 311)\<close>

text \<open>
  The chain of tests of line 294 to 305. \<^verbatim>\<open>config_dict.has_key(key) and
  config_dict[key] == 'IGNORE'\<close> is the lookup giving \<open>Some ''IGNORE''\<close>. Each branch
  sets the action and adds one to its counter.
\<close>

definition rule_action :: "config \<Rightarrow> bool \<Rightarrow> string \<Rightarrow> 'w st \<Rightarrow> string \<times> 'w st" where
  "rule_action c info_unspec key st =
     (if config_dict c key = Some ''IGNORE'' then
        (''IGNORE'', st\<lparr>ignore_count := ignore_count st + 1\<rparr>)
      else if config_dict c key = Some ''FAIL'' then
        (''FAIL'', st\<lparr>fail_count := fail_count st + 1\<rparr>)
      else if info_unspec \<or> config_dict c key = Some ''INFO'' then
        (''INFO'', st\<lparr>info_count := info_count st + 1\<rparr>)
      else
        (''WARN'', st\<lparr>warn_count := warn_count st + 1\<rparr>))"

text \<open>
  One turn of the loop of line 293. \<^verbatim>\<open>alert_list[0]\<close> raises \<^verbatim>\<open>IndexError\<close> on an empty
  list, after the counter has been changed.
\<close>

definition rule_line :: "string \<Rightarrow> zap_alert \<Rightarrow> zap_alert list \<Rightarrow> string" where
  "rule_line action a0 alert_list =
     action @ '': '' @ alert a0 @ '' ['' @ pluginId a0 @ ''] x '' @ str_nat (length alert_list)"

definition report_rule :: "config \<Rightarrow> options \<Rightarrow> string \<times> zap_alert list \<Rightarrow> 'w st \<Rightarrow> py_error option \<times> 'w st" where
  "report_rule c opts item st =
     (case rule_action c (info_unspecified opts) (fst item) st of
        (action, st1) \<Rightarrow>
          (case snd item of
             [] \<Rightarrow> (Some IndexError, st1)
           | a0 # rest \<Rightarrow>
               (let st2 = print (rule_line action a0 (snd item)) st1 in
                if detailed_output opts then
                  (None, foldl (\<lambda>s a. print ([TAB] @ url a) s) st2 (take 5 (snd item)))
                else (None, st2))))"

fun report_rules :: "config \<Rightarrow> options \<Rightarrow> (string \<times> zap_alert list) list \<Rightarrow> 'w st \<Rightarrow> py_error option \<times> 'w st" where
  "report_rules c opts [] st = (None, st)"
| "report_rules c opts (item # items) st =
     (case report_rule c opts item st of
        (Some e, st1) \<Rightarrow> (Some e, st1)
      | (None, st1) \<Rightarrow> report_rules c opts items st1)"

definition summary_line :: "'w st \<Rightarrow> string" where
  "summary_line st =
     ''FAIL: '' @ str_nat (fail_count st) @ [TAB] @ ''WARN: '' @ str_nat (warn_count st) @ [TAB]
       @ ''INFO: '' @ str_nat (info_count st) @ [TAB] @ ''IGNORE: '' @ str_nat (ignore_count st)
       @ [TAB] @ ''PASS: '' @ str_nat (pass_count st)"

subsection \<open>Numbers and time\<close>

text \<open>
  \<^verbatim>\<open>int(s)\<close> on a string: blanks around it are dropped, one sign is allowed, and the
  rest must be decimal digits, at least one; anything else raises \<^verbatim>\<open>ValueError\<close>
  (\<open>None\<close> here).
\<close>

definition is_digit :: "char \<Rightarrow> bool" where
  "is_digit c = (c \<in> set ''0123456789'')"

definition digit_val :: "char \<Rightarrow> nat" where
  "digit_val c = of_char c - 48"

definition strip :: "string \<Rightarrow> string" where
  "strip s = rstrip (dropWhile py_isspace s)"

definition py_int :: "string \<Rightarrow> int option" where
  "py_int s =
     (let t = strip s;
          ds = (if startswith t ''-'' \<or> startswith t ''+'' then tl t else t)
      in if ds \<noteq> [] \<and> list_all is_digit ds then
           Some ((if startswith t ''-'' then - 1 else 1) * int (foldl (\<lambda>a c. 10 * a + digit_val c) 0 ds))
         else None)"

text \<open>
  \<^verbatim>\<open>datetime.now()\<close> is a number of microseconds, the difference of two readings a
  \<^verbatim>\<open>timedelta\<close>. A \<^verbatim>\<open>timedelta\<close> is kept as days, seconds and microseconds with
  \<open>0 \<le> seconds < 86400\<close>, and its attribute \<^verbatim>\<open>seconds\<close> is that middle part, not the
  whole duration.
\<close>

definition td_seconds :: "int \<Rightarrow> int" where
  "td_seconds d = (d div 1000000) mod 86400"

definition td_days :: "int \<Rightarrow> int" where
  "td_days d = (d div 1000000) div 86400"

subsection \<open>Waiting for the scanner (lines 204 to 239)\<close>

text \<open>
  Lines 207 to 212: \<^verbatim>\<open>for x in range(0, timeout)\<close> with a \<^verbatim>\<open>break\<close> on the first answer
  and a sleep of one second after an \<^verbatim>\<open>IOError\<close>. The loop has no \<^verbatim>\<open>else\<close>: when the
  range is used up the statement after the loop runs. The argument counts the turns
  that are left.
\<close>

fun wait_for_start :: "'w zap_world \<Rightarrow> nat \<Rightarrow> 'w st \<Rightarrow> py_error option \<times> 'w st" where
  "wait_for_start api 0 st = (None, st)"
| "wait_for_start api (Suc n) st =
     (case call (core_version api) st of
        (Inr v, st1) \<Rightarrow> (None, st1)
      | (Inl e, st1) \<Rightarrow>
          if e = IOError then wait_for_start api n (do_sleep api 1 st1)
          else (Some e, st1))"

text \<open>
  Lines 224 to 230: the status is read and converted; below 100 the clock is read and
  compared, the status is read again for the debug message, and the loop sleeps five
  seconds. The loop may run forever, so its result is an option.
\<close>

partial_function (option) spider_wait ::
  "'w zap_world \<Rightarrow> options \<Rightarrow> string \<Rightarrow> int \<Rightarrow> 'w st \<Rightarrow> (py_error option \<times> 'w st) option" where
  "spider_wait api opts spider_scan_id start st =
     (case call (spider_status api spider_scan_id) st of
        (Inl e, st1) \<Rightarrow> Some (Some e, st1)
      | (Inr s, st1) \<Rightarrow>
          (case py_int s of
             None \<Rightarrow> Some (Some ValueError, st1)
           | Some progress \<Rightarrow>
               if progress < 100 then
                 (case call (now api) st1 of
                    (t, st2) \<Rightarrow>
                      if td_seconds (t - start) > mins opts * 60 + 10 then Some (None, st2)
                      else
                        (case call (spider_status api spider_scan_id) st2 of
                           (Inl e, st3) \<Rightarrow> Some (Some e, st3)
                         | (Inr s', st3) \<Rightarrow>
                             spider_wait api opts spider_scan_id start (do_sleep api 5 st3)))
               else Some (None, st1)))"

declare spider_wait.simps [code]

text \<open>Lines 236 to 238: the same shape with no bound on the time.\<close>

partial_function (option) pscan_wait ::
  "'w zap_world \<Rightarrow> 'w st \<Rightarrow> (py_error option \<times> 'w st) option" where
  "pscan_wait api st =
     (case call (records_to_scan api) st of
        (Inl e, st1) \<Rightarrow> Some (Some e, st1)
      | (Inr s, st1) \<Rightarrow>
          (case py_int s of
             None \<Rightarrow> Some (Some ValueError, st1)
           | Some n \<Rightarrow>
               if n > 0 then
                 (case call (records_to_scan api) st1 of
                    (Inl e, st2) \<Rightarrow> Some (Some e, st2)
                  | (Inr s', st2) \<Rightarrow> pscan_wait api (do_sleep api 2 st2))
               else Some (None, st1)))"

declare pscan_wait.simps [code]

subsection \<open>The results (lines 241 to 327)\<close>

text \<open>Lines 267 to 275: the generated configuration file.\<close>

definition write_generate :: "'w zap_world \<Rightarrow> options \<Rightarrow> (string \<times> string) list \<Rightarrow> 'w st \<Rightarrow> py_error option \<times> 'w st" where
  "write_generate api opts all_dict st =
     (if length (generate opts) > 0 then
        (case open_w api (''/zap/wrk/'' @ generate opts) st of
           (Some e, st1) \<Rightarrow> (Some e, st1)
         | (None, st1) \<Rightarrow> write_all api (''/zap/wrk/'' @ generate opts) (generate_lines all_dict) st1)
      else (None, st))"

text \<open>
  Lines 277 to 311: the passing rules, \<^verbatim>\<open>pass_count\<close>, then the loop over the sorted
  groups. Nothing here leaves the script.
\<close>

definition print_passes :: "options \<Rightarrow> (string \<times> string) list \<Rightarrow> 'w st \<Rightarrow> 'w st" where
  "print_passes opts pass_dict st =
     (if detailed_output opts then foldl (\<lambda>s kr. print (pass_line kr) s) st (sorted_items pass_dict)
      else st)"

definition classify :: "config \<Rightarrow> options \<Rightarrow> zap_alert list \<Rightarrow> zap_rule list \<Rightarrow> 'w st \<Rightarrow> py_error option \<times> 'w st" where
  "classify c opts alerts all_rules st =
     (let alert_dict = group_alerts alerts;
          pass_dict = build_pass_dict alert_dict all_rules;
          st1 = print_passes opts pass_dict st;
          st2 = st1\<lparr>pass_count := length pass_dict\<rparr>
      in report_rules c opts (sorted_items alert_dict) st2)"

text \<open>
  Lines 313 to 321: a report file is opened, then the report is asked for, then it is
  written.
\<close>

definition save_report :: "'w zap_world \<Rightarrow> string \<Rightarrow> ('w \<Rightarrow> (py_error + string) \<times> 'w) \<Rightarrow> 'w st \<Rightarrow> py_error option \<times> 'w st" where
  "save_report api name fetch st =
     (if length name > 0 then
        (case open_w api (''/zap/wrk/'' @ name) st of
           (Some e, st1) \<Rightarrow> (Some e, st1)
         | (None, st1) \<Rightarrow>
             (case call fetch st1 of
                (Inl e, st2) \<Rightarrow> (Some e, st2)
              | (Inr text, st2) \<Rightarrow> write_all api (''/zap/wrk/'' @ name) [text] st2))
      else (None, st))"

text \<open>Lines 246 to 324: the \<^verbatim>\<open>else\<close> branch, taken when some URL was found.\<close>

definition print_total :: "'w zap_world \<Rightarrow> options \<Rightarrow> 'w st \<Rightarrow> py_error option \<times> 'w st" where
  "print_total api opts st =
     (if detailed_output opts then
        (case call (core_urls api) st of
           (Inl e, st1) \<Rightarrow> (Some e, st1)
         | (Inr urls, st1) \<Rightarrow> (None, print (''Total of '' @ str_nat (length urls) @ '' URLs'') st1))
      else (None, st))"

definition report_block :: "'w zap_world \<Rightarrow> options \<Rightarrow> config \<Rightarrow> 'w st \<Rightarrow> py_error option \<times> 'w st" where
  "report_block api opts c st =
     (case print_total api opts st of
        (Some e, st1) \<Rightarrow> (Some e, st1)
      | (None, st1) \<Rightarrow>
     (case call (core_alerts api) st1 of
        (Inl e, st2) \<Rightarrow> (Some e, st2)
      | (Inr alerts, st2) \<Rightarrow>
     (case call (pscan_scanners api) st2 of
        (Inl e, st3) \<Rightarrow> (Some e, st3)
      | (Inr all_rules, st3) \<Rightarrow>
     (case write_generate api opts (build_all_dict all_rules) st3 of
        (Some e, st4) \<Rightarrow> (Some e, st4)
      | (None, st4) \<Rightarrow>
     (case classify c opts alerts all_rules st4 of
        (Some e, st5) \<Rightarrow> (Some e, st5)
      | (None, st5) \<Rightarrow>
     (case save_report api (report_html opts) (core_htmlreport api) st5 of
        (Some e, st6) \<Rightarrow> (Some e, st6)
      | (None, st6) \<Rightarrow>
     (case save_report api (report_xml opts) (core_xmlreport api) st6 of
        (Some e, st7) \<Rightarrow> (Some e, st7)
      | (None, st7) \<Rightarrow> (None, print (summary_line st7) st7))))))))"

text \<open>Lines 241 to 327: the count of URLs decides, then the scanner is stopped.\<close>

definition no_urls_warning :: string where
  "no_urls_warning = ''No URLs found - is the target URL accessible? Local services may not be accessible from the Docker container''"

definition results :: "'w zap_world \<Rightarrow> options \<Rightarrow> config \<Rightarrow> 'w st \<Rightarrow> py_error option \<times> 'w st" where
  "results api opts c st =
     (case call (core_urls api) st of
        (Inl e, st1) \<Rightarrow> (Some e, st1)
      | (Inr urls, st1) \<Rightarrow>
          (case (if length urls = 0 then (None, log_warning no_urls_warning st1)
                 else report_block api opts c st1) of
             (Some e, st2) \<Rightarrow> (Some e, st2)
           | (None, st2) \<Rightarrow> call (core_shutdown api) st2))"

subsection \<open>The body of the \<^verbatim>\<open>try\<close> block and \<^verbatim>\<open>main\<close>\<close>

text \<open>Lines 233 to 327, from the end of the spider loop on.\<close>

definition after_spider :: "'w zap_world \<Rightarrow> options \<Rightarrow> config \<Rightarrow> 'w st \<Rightarrow> (py_error option \<times> 'w st) option" where
  "after_spider api opts c st =
     (case call (records_to_scan api) st of
        (Inl e, st1) \<Rightarrow> Some (Some e, st1)
      | (Inr rtc, st1) \<Rightarrow>
          (case pscan_wait api st1 of
             None \<Rightarrow> None
           | Some (Some e, st2) \<Rightarrow> Some (Some e, st2)
           | Some (None, st2) \<Rightarrow> Some (results api opts c st2)))"

text \<open>Lines 214 to 327, from the end of the start loop on.\<close>

definition after_start :: "'w zap_world \<Rightarrow> options \<Rightarrow> config \<Rightarrow> 'w st \<Rightarrow> (py_error option \<times> 'w st) option" where
  "after_start api opts c st =
     (case call (urlopen api (target opts)) st of
        (Some e, st1) \<Rightarrow> Some (Some e, st1)
      | (None, st1) \<Rightarrow>
          (case call (spider_scan api (target opts)) (do_sleep api 2 st1) of
             (Inl e, st2) \<Rightarrow> Some (Some e, st2)
           | (Inr spider_scan_id, st2) \<Rightarrow>
               (case call (now api) (do_sleep api 5 st2) of
                  (start, st3) \<Rightarrow>
                    (case spider_wait api opts spider_scan_id start st3 of
                       None \<Rightarrow> None
                     | Some (Some e, st4) \<Rightarrow> Some (Some e, st4)
                     | Some (None, st4) \<Rightarrow> after_spider api opts c st4))))"

definition scan_body :: "'w zap_world \<Rightarrow> options \<Rightarrow> config \<Rightarrow> 'w st \<Rightarrow> (py_error option \<times> 'w st) option" where
  "scan_body api opts c st =
     (case wait_for_start api timeout st of
        (Some e, st1) \<Rightarrow> Some (Some e, st1)
      | (None, st1) \<Rightarrow> after_start api opts c st1)"

text \<open>
  Lines 329 to 334: both handlers print the traceback and log a warning; the run goes
  on to the exit code. An \<^verbatim>\<open>IOError\<close> is taken in its two-argument form, which the
  first handler unpacks.
\<close>

definition handlers :: "py_error option \<Rightarrow> 'w st \<Rightarrow> 'w st" where
  "handlers r st =
     (case r of
        None \<Rightarrow> st
      | Some e \<Rightarrow> if e = IOError then log_warning ''I/O error'' st
                  else log_warning ''Unexpected error'' st)"

text \<open>Lines 336 to 343.\<close>

definition exit_code :: "'w st \<Rightarrow> nat" where
  "exit_code st =
     (if fail_count st > 0 then 1
      else if warn_count st > 0 then 2
      else if pass_count st > 0 then 0
      else 3)"

text \<open>
  How a run ends: \<^verbatim>\<open>sys.exit(n)\<close>, or an exception that nothing catches, on which the
  interpreter prints the traceback and leaves with status 1.
\<close>

datatype exit_status = Exit nat | Uncaught py_error

fun process_status :: "exit_status \<Rightarrow> nat" where
  "process_status (Exit n) = n"
| "process_status (Uncaught e) = 1"

text \<open>Lines 145 to 151: ports are drawn until one is free.\<close>

partial_function (option) choose_port :: "'w zap_world \<Rightarrow> 'w st \<Rightarrow> 'w st option" where
  "choose_port api st =
     (case call (port_taken api) st of
        (taken, st1) \<Rightarrow> if taken then choose_port api st1 else Some st1)"

declare choose_port.simps [code]

text \<open>
  Lines 155 to 183: the file branch is outside any \<^verbatim>\<open>try\<close>, the URL branch is inside
  one whose handler logs a warning and calls \<^verbatim>\<open>sys.exit(3)\<close>.
\<close>

definition load_config :: "'w zap_world \<Rightarrow> options \<Rightarrow> 'w st \<Rightarrow> (exit_status + config) \<times> 'w st" where
  "load_config api opts st =
     (if length (config_file opts) > 0 then
        (case call (read_file api (''/zap/wrk/'' @ config_file opts)) st of
           (Inl e, st1) \<Rightarrow> (Inl (Uncaught e), st1)
         | (Inr lines, st1) \<Rightarrow>
             (case config_lines lines empty_config of
                Inl e \<Rightarrow> (Inl (Uncaught e), st1)
              | Inr c \<Rightarrow> (Inr c, st1)))
      else if length (config_url opts) > 0 then
        (case call (read_url api (config_url opts)) st of
           (Inl e, st1) \<Rightarrow>
             (Inl (Exit 3), log_warning (''Failed to read configs from '' @ config_url opts) st1)
         | (Inr lines, st1) \<Rightarrow>
             (case config_lines lines empty_config of
                Inl e \<Rightarrow>
                  (Inl (Exit 3), log_warning (''Failed to read configs from '' @ config_url opts) st1)
              | Inr c \<Rightarrow> (Inr c, st1)))
      else (Inr empty_config, st))"

text \<open>Lines 185 to 202 and the \<^verbatim>\<open>try\<close> block with its handlers and the exit.\<close>

definition run_zap :: "'w zap_world \<Rightarrow> options \<Rightarrow> config \<Rightarrow> 'w st \<Rightarrow> (exit_status \<times> 'w st) option" where
  "run_zap api opts c st =
     (case call (start_zap api (mins opts) (zap_alpha opts)) st of
        (Some e, st1) \<Rightarrow>
          if e = OSError then Some (Exit 3, log_warning ''Failed to start ZAP :('' st1)
          else Some (Uncaught e, st1)
      | (None, st1) \<Rightarrow>
          (case scan_body api opts c st1 of
             None \<Rightarrow> None
           | Some (r, st2) \<Rightarrow> Some (Exit (exit_code (handlers r st2)), handlers r st2)))"

text \<open>Lines 128 to 143: the checks on the target and on the mounted directory.\<close>

definition file_option :: "options \<Rightarrow> bool" where
  "file_option opts =
     (length (config_file opts) > 0 \<or> length (generate opts) > 0
      \<or> length (report_html opts) > 0 \<or> length (report_xml opts) > 0)"

definition main :: "'w zap_world \<Rightarrow> options \<Rightarrow> 'w \<Rightarrow> (exit_status \<times> 'w st) option" where
  "main api opts w =
     (let st = init_st w in
      if length (target opts) = 0 then Some (Exit 3, usage st)
      else if \<not> (startswith (target opts) ''http://'' \<or> startswith (target opts) ''https://'') then
        Some (Exit 3, usage (log_warning ''Target must start with http:// or https://'' st))
      else
        (case (if file_option opts then call (path_exists api ''/zap/wrk/'') st else (True, st)) of
           (mounted, st1) \<Rightarrow>
             if \<not> mounted then
               Some (Exit 3, usage (log_warning ''A file based option has been specified but the directory /zap/wrk is not mounted '' st1))
             else
               (case choose_port api st1 of
                  None \<Rightarrow> None
                | Some st2 \<Rightarrow>
                    (case load_config api opts st2 of
                       (Inl x, st3) \<Rightarrow> Some (x, st3)
                     | (Inr c, st3) \<Rightarrow> run_zap api opts c st3))))"

subsection \<open>A concrete world for running the model\<close>

text \<open>
  A scene fixes what the world answers: the second at which the scanner starts to
  answer, the lines of the rule configuration (or the exception its source raises),
  the spider's progress, and the URLs, alerts and rules the scanner reports. The world
  state is the clock in seconds; only sleeping moves it.
\<close>

record scene =
  ready_at :: nat
  policy :: "py_error + string list"
  progress :: string
  found_urls :: "string list"
  found_alerts :: "zap_alert list"
  scan_rules :: "zap_rule list"

definition scene_world :: "scene \<Rightarrow> nat zap_world" where
  "scene_world sc =
     \<lparr>path_exists = (\<lambda>p w. (True, w)),
      port_taken = (\<lambda>w. (False, w)),
      read_file = (\<lambda>p w. (policy sc, w)),
      read_url = (\<lambda>u w. (policy sc, w)),
      start_zap = (\<lambda>m a w. (None, w)),
      core_version = (\<lambda>w. (if w < ready_at sc then Inl IOError else Inr ''2.4.3'', w)),
      urlopen = (\<lambda>t w. (if w < ready_at sc then Some IOError else None, w)),
      spider_scan = (\<lambda>t w. (Inr ''0'', w)),
      spider_status = (\<lambda>i w. (Inr (progress sc), w)),
      records_to_scan = (\<lambda>w. (Inr ''0'', w)),
      core_urls = (\<lambda>w. (Inr (found_urls sc), w)),
      core_alerts = (\<lambda>w. (Inr (found_alerts sc), w)),
      pscan_scanners = (\<lambda>w. (Inr (scan_rules sc), w)),
      core_htmlreport = (\<lambda>w. (Inr ''<html></html>'', w)),
      core_xmlreport = (\<lambda>w. (Inr ''<xml/>'', w)),
      core_shutdown = (\<lambda>w. (None, w)),
      open_write = (\<lambda>p w. (None, w)),
      file_write = (\<lambda>p s w. (None, w)),
      now = (\<lambda>w. (int w * 1000000, w)),
      sleep = (\<lambda>n w. w + n)\<rparr>"

definition base_options :: options where
  "base_options = \<lparr>config_file = [], config_url = [], generate = [], mins = 1,
     detailed_output = True, report_html = [], report_xml = [], target = ''http://example.com'',
     zap_alpha = False, info_unspecified = False\<rparr>"

definition alert1 :: zap_alert where
  "alert1 = \<lparr>pluginId = ''10010'', alert = ''Cookie No HttpOnly Flag'', url = ''http://example.com/a''\<rparr>"



definition rule1 :: zap_rule where
  "rule1 = \<lparr>rule_id = ''10015'', rule_name = ''Incomplete or No Cache-control''\<rparr>"

definition base_scene :: scene where
  "base_scene = \<lparr>ready_at = 0, policy = Inr [], progress = ''100'',
     found_urls = [''http://example.com''], found_alerts = [], scan_rules = [rule1]\<rparr>"

subsection \<open>Reading a result\<close>

text \<open>
  Three functions used to state properties: the list a dictionary of lists holds for
  a key (empty when the key is absent), the action the chain of tests gives a rule
  id, and the number of rule ids of a list that get a given action.
\<close>

definition lookup_list :: "('k \<times> 'v list) list \<Rightarrow> 'k \<Rightarrow> 'v list" where
  "lookup_list d k = (case map_of d k of None \<Rightarrow> [] | Some l \<Rightarrow> l)"

definition resolved_action :: "config \<Rightarrow> bool \<Rightarrow> string \<Rightarrow> string" where
  "resolved_action c iu key = fst (rule_action c iu key (init_st ()))"

definition count_action :: "config \<Rightarrow> bool \<Rightarrow> string \<Rightarrow> string list \<Rightarrow> nat" where
  "count_action c iu a keys = length (filter (\<lambda>k. resolved_action c iu k = a) keys)"

definition alert_noise :: zap_alert where
  "alert_noise = \<lparr>pluginId = ''60001'', alert = ''Example'', url = ''http://example.com/n''\<rparr>"

definition rule_noise :: zap_rule where
  "rule_noise = \<lparr>rule_id = ''60001'', rule_name = ''Example rule''\<rparr>"

definition counters :: "'w st \<Rightarrow> nat \<times> nat \<times> nat \<times> nat \<times> nat" where
  "counters st = (pass_count st, warn_count st, fail_count st, info_count st, ignore_count st)"


definition fail_config :: config where
  "fail_config = \<lparr>config_dict = [''10010'' \<mapsto> ''FAIL''], config_msg = [''10010'' \<mapsto> []]\<rparr>"

definition no_url_scene :: scene where
  "no_url_scene = base_scene\<lparr>found_urls := [], found_alerts := [alert1],
     policy := Inr [''10010'' @ [TAB] @ ''FAIL'' @ [TAB] @ ''(Cookie No HttpOnly Flag)'' @ [NL]]\<rparr>"

definition all_file_options :: options where
  "all_file_options = base_options\<lparr>config_file := ''policy.conf'', generate := ''gen.conf'',
     report_html := ''report.html'', report_xml := ''report.xml''\<rparr>"

definition missing_file_scene :: scene where
  "missing_file_scene = base_scene\<lparr>policy := Inl IOError\<rparr>"

definition missing_file_options :: options where
  "missing_file_options = base_options\<lparr>config_file := ''missing.conf''\<rparr>"

definition one_field_line :: string where
  "one_field_line = ''10010 WARN (Cookie No HttpOnly Flag)'' @ [NL]"

definition two_field_line :: string where
  "two_field_line = ''10010'' @ [TAB] @ ''WARN'' @ [NL]"

definition bad_policy_scene :: scene where
  "bad_policy_scene = base_scene\<lparr>policy := Inr [two_field_line]\<rparr>"

definition policy_file_options :: options where
  "policy_file_options = base_options\<lparr>config_file := ''policy.conf''\<rparr>"

definition bogus_optional :: string where
  "bogus_optional = ''(Cookie No HttpOnly Flag)'' @ [TAB] @ ''ask the team'' @ [NL]"

fun after_polls :: "'w zap_world \<Rightarrow> nat \<Rightarrow> 'w \<Rightarrow> 'w" where
  "after_polls api 0 w = w"
| "after_polls api (Suc k) w = after_polls api k (sleep api 1 (snd (core_version api w)))"

definition late_scene :: scene where
  "late_scene = base_scene\<lparr>ready_at := 120\<rparr>"

definition never_scene :: scene where
  "never_scene = base_scene\<lparr>ready_at := 1000\<rparr>"

section \<open>Properties\<close>

subsection \<open>Dictionaries, groups and counters\<close>

lemma map_of_dict_set: "map_of (dict_set d k v) = (map_of d)(k \<mapsto> v)"
  by (induction d) (auto simp: fun_eq_iff)

lemma keys_dict_set: "fst ` set (dict_set d k v) = insert k (fst ` set d)"
  by (induction d) auto

lemma distinct_dict_set: "distinct (map fst d) \<Longrightarrow> distinct (map fst (dict_set d k v))"
  by (induction d) (auto simp: keys_dict_set)

lemma has_key_dict_set: "has_key (dict_set d k v) k"
  by (simp add: has_key_def map_of_dict_set)



lemma add_alert_keys:
  "fst ` set (add_alert d a) = (if pluginId a \<in> set blacklist then fst ` set d else insert (pluginId a) (fst ` set d))"
  by (auto simp: add_alert_def Let_def has_key_def map_of_dict_set keys_dict_set split: option.splits)

lemma add_alert_distinct: "distinct (map fst d) \<Longrightarrow> distinct (map fst (add_alert d a))"
  by (auto simp: add_alert_def Let_def distinct_dict_set split: option.splits)

lemma add_alert_lookup:
  "lookup_list (add_alert d a) k =
     lookup_list d k @ (if pluginId a = k \<and> k \<notin> set blacklist then [a] else [])"
  by (auto simp: add_alert_def Let_def has_key_def map_of_dict_set lookup_list_def split: option.splits)

lemma add_alert_nonempty:
  "map_of d k \<noteq> Some [] \<Longrightarrow> map_of (add_alert d a) k \<noteq> Some []"
  by (auto simp: add_alert_def Let_def has_key_def map_of_dict_set split: option.splits)

lemma foldl_add_alert_keys:
  "fst ` set (foldl add_alert d alerts) = fst ` set d \<union> {k \<in> pluginId ` set alerts. k \<notin> set blacklist}"
  by (induction alerts arbitrary: d) (auto simp: add_alert_keys)

lemma foldl_add_alert_distinct:
  "distinct (map fst d) \<Longrightarrow> distinct (map fst (foldl add_alert d alerts))"
  by (induction alerts arbitrary: d) (auto simp: add_alert_distinct)

lemma foldl_add_alert_lookup:
  "lookup_list (foldl add_alert d alerts) k =
     lookup_list d k @ filter (\<lambda>a. pluginId a = k \<and> k \<notin> set blacklist) alerts"
  by (induction alerts arbitrary: d) (auto simp: add_alert_lookup)

lemma foldl_add_alert_nonempty:
  "map_of d k \<noteq> Some [] \<Longrightarrow> map_of (foldl add_alert d alerts) k \<noteq> Some []"
  by (induction alerts arbitrary: d) (auto simp: add_alert_nonempty)

lemma group_alerts_keys:
  "fst ` set (group_alerts alerts) = {k \<in> pluginId ` set alerts. k \<notin> set blacklist}"
  by (simp add: group_alerts_def foldl_add_alert_keys)

lemma group_alerts_distinct: "distinct (map fst (group_alerts alerts))"
  by (simp add: group_alerts_def foldl_add_alert_distinct)

lemma group_alerts_item:
  assumes "(k, l) \<in> set (group_alerts alerts)"
  shows "l = filter (\<lambda>a. pluginId a = k) alerts \<and> l \<noteq> [] \<and> k \<notin> set blacklist"
proof -
  have m: "map_of (group_alerts alerts) k = Some l"
    using assms group_alerts_distinct by (simp add: map_of_eq_Some_iff)
  have k: "k \<notin> set blacklist"
    using assms group_alerts_keys [of alerts] by (force simp: image_iff)
  have "lookup_list (group_alerts alerts) k = filter (\<lambda>a. pluginId a = k \<and> k \<notin> set blacklist) alerts"
    using foldl_add_alert_lookup [of "[]" alerts k] by (simp add: group_alerts_def lookup_list_def)
  with m k have l: "l = filter (\<lambda>a. pluginId a = k) alerts"
    by (simp add: lookup_list_def)
  have "map_of (group_alerts alerts) k \<noteq> Some []"
    unfolding group_alerts_def by (rule foldl_add_alert_nonempty) simp
  with m l k show ?thesis by auto
qed


lemma foldl_add_rule_keys:
  "fst ` set (foldl add_rule d rules) = fst ` set d \<union> {k \<in> rule_id ` set rules. k \<notin> set blacklist}"
  by (induction rules arbitrary: d) (auto simp: add_rule_def Let_def keys_dict_set)

lemma build_all_dict_keys:
  "fst ` set (build_all_dict rules) = {k \<in> rule_id ` set rules. k \<notin> set blacklist}"
  by (simp add: build_all_dict_def foldl_add_rule_keys)

lemma foldl_add_pass_keys:
  "fst ` set (foldl (add_pass ad) d rules) =
     fst ` set d \<union> {k \<in> rule_id ` set rules. k \<notin> set blacklist \<and> \<not> has_key ad k}"
  by (induction rules arbitrary: d) (auto simp: add_pass_def Let_def keys_dict_set)

lemma build_pass_dict_keys:
  "fst ` set (build_pass_dict ad rules) = {k \<in> rule_id ` set rules. k \<notin> set blacklist \<and> \<not> has_key ad k}"
  by (simp add: build_pass_dict_def foldl_add_pass_keys)

lemma set_sorted_items: "set (sorted_items d) = set d"
  by (simp add: sorted_items_def)

lemma rule_action_counts:
  "rule_action c iu key st = (a, st') \<Longrightarrow>
     pass_count st' = pass_count st \<and> printed st' = printed st \<and> warnings st' = warnings st
     \<and> opened st' = opened st \<and> written st' = written st \<and> world st' = world st"
  by (auto simp: rule_action_def split: if_splits)

lemma foldl_print:
  "foldl (\<lambda>s a. print (f a) s) st xs = st\<lparr>printed := printed st @ map f xs\<rparr>"
  by (induction xs arbitrary: st) (auto simp: print_def)


lemma report_rule_ok:
  assumes "snd item \<noteq> []"
  shows "fst (report_rule c opts item st) = None"
  using assms
  by (cases "snd item") (auto simp: report_rule_def Let_def split: prod.splits)

lemma report_rule_eq:
  assumes "snd item \<noteq> []"
  shows "report_rule c opts item st =
     (None, (snd (rule_action c (info_unspecified opts) (fst item) st))
        \<lparr>printed := printed st @
           rule_line (fst (rule_action c (info_unspecified opts) (fst item) st)) (hd (snd item)) (snd item)
           # (if detailed_output opts then map (\<lambda>a. [TAB] @ url a) (take 5 (snd item)) else [])\<rparr>)"
proof -
  obtain a0 rest where l: "snd item = a0 # rest"
    using assms by (cases "snd item") auto
  obtain action st1 where r: "rule_action c (info_unspecified opts) (fst item) st = (action, st1)"
    by (cases "rule_action c (info_unspecified opts) (fst item) st")
  have p: "printed st1 = printed st"
    using rule_action_counts [OF r] by simp
  show ?thesis
    by (simp add: report_rule_def r l Let_def foldl_print p) (simp add: print_def p)
qed




lemma rule_action_fst: "fst (rule_action c iu key st) = resolved_action c iu key"
  by (simp add: rule_action_def resolved_action_def)

lemma resolved_action_cases:
  "resolved_action c iu key \<in> {''IGNORE'', ''FAIL'', ''INFO'', ''WARN''}"
  by (simp add: rule_action_def resolved_action_def)

lemma rule_action_snd:
  "warn_count (snd (rule_action c iu key st)) = warn_count st + (if resolved_action c iu key = ''WARN'' then 1 else 0)"
  "fail_count (snd (rule_action c iu key st)) = fail_count st + (if resolved_action c iu key = ''FAIL'' then 1 else 0)"
  "info_count (snd (rule_action c iu key st)) = info_count st + (if resolved_action c iu key = ''INFO'' then 1 else 0)"
  "ignore_count (snd (rule_action c iu key st)) = ignore_count st + (if resolved_action c iu key = ''IGNORE'' then 1 else 0)"
  "pass_count (snd (rule_action c iu key st)) = pass_count st"
  "opened (snd (rule_action c iu key st)) = opened st"
  "written (snd (rule_action c iu key st)) = written st"
  "warnings (snd (rule_action c iu key st)) = warnings st"
  "world (snd (rule_action c iu key st)) = world st"
  by (simp_all add: rule_action_def resolved_action_def)

lemma report_rules_counts:
  assumes "\<forall>item \<in> set items. snd item \<noteq> []"
  shows "fst (report_rules c opts items st) = None
    \<and> warn_count (snd (report_rules c opts items st)) = warn_count st + count_action c (info_unspecified opts) ''WARN'' (map fst items)
    \<and> fail_count (snd (report_rules c opts items st)) = fail_count st + count_action c (info_unspecified opts) ''FAIL'' (map fst items)
    \<and> info_count (snd (report_rules c opts items st)) = info_count st + count_action c (info_unspecified opts) ''INFO'' (map fst items)
    \<and> ignore_count (snd (report_rules c opts items st)) = ignore_count st + count_action c (info_unspecified opts) ''IGNORE'' (map fst items)
    \<and> pass_count (snd (report_rules c opts items st)) = pass_count st
    \<and> opened (snd (report_rules c opts items st)) = opened st
    \<and> written (snd (report_rules c opts items st)) = written st
    \<and> warnings (snd (report_rules c opts items st)) = warnings st
    \<and> world (snd (report_rules c opts items st)) = world st"
  using assms
proof (induction items arbitrary: st)
  case Nil
  then show ?case by (simp add: count_action_def)
next
  case (Cons item items)
  have ne: "snd item \<noteq> []" and rest: "\<forall>i \<in> set items. snd i \<noteq> []"
    using Cons.prems by auto
  note eq = report_rule_eq [OF ne, of c opts st]
  show ?case
    using Cons.IH [OF rest]
    by (simp add: eq rule_action_snd count_action_def)
qed

subsection \<open>The action of a rule\<close>

text \<open>
  C1. The claim: a rule with an entry in the configuration gets the action of its
  entry whatever the default mode is, so an explicit \<open>WARN\<close> stays \<open>WARN\<close> under
  \<^verbatim>\<open>-i\<close>. The chain of tests of \<^verbatim>\<open>main\<close> does otherwise: the test of
  \<^verbatim>\<open>info_unspecified\<close> comes before the entry is looked at for anything but \<open>IGNORE\<close>
  and \<open>FAIL\<close>, so with \<^verbatim>\<open>-i\<close> a rule whose entry says \<open>WARN\<close> is reported as \<open>INFO\<close>
  and counted in \<^verbatim>\<open>info_count\<close>.
\<close>

theorem C1_explicit_warn_becomes_info:
  "config_dict c key = Some ''WARN'' \<Longrightarrow>
   rule_action c True key st = (''INFO'', st\<lparr>info_count := info_count st + 1\<rparr>)"
  by (simp add: rule_action_def)

theorem C1_explicit_warn_becomes_info_witness:
  "config_dict \<lparr>config_dict = [''10010'' \<mapsto> ''WARN''], config_msg = [''10010'' \<mapsto> []]\<rparr> ''10010'' = Some ''WARN''
   \<and> config_lines [''10010'' @ [TAB] @ ''WARN'' @ [TAB] @ ''(Cookie No HttpOnly Flag)'' @ [NL]] empty_config
       = Inr \<lparr>config_dict = [''10010'' \<mapsto> ''WARN''], config_msg = [''10010'' \<mapsto> []]\<rparr>
   \<and> rule_action \<lparr>config_dict = [''10010'' \<mapsto> ''WARN''], config_msg = [''10010'' \<mapsto> []]\<rparr> True ''10010'' (init_st (0::nat))
       = (''INFO'', (init_st 0)\<lparr>info_count := 1\<rparr>)"
  using C1_explicit_warn_becomes_info [of "\<lparr>config_dict = [''10010'' \<mapsto> ''WARN''], config_msg = [''10010'' \<mapsto> []]\<rparr>" "''10010''" "init_st (0::nat)"]
  by (simp add: config_line_def TAB_def NL_def empty_config_def numeral_2_eq_2 init_st_def)

subsection \<open>The blacklist\<close>

lemma foldl_add_alert_filter:
  "foldl add_alert d (filter (\<lambda>a. pluginId a \<notin> set blacklist) alerts) = foldl add_alert d alerts"
  by (induction alerts arbitrary: d) (auto simp: add_alert_def)

lemma foldl_add_rule_filter:
  "foldl add_rule d (filter (\<lambda>r. rule_id r \<notin> set blacklist) rules) = foldl add_rule d rules"
  by (induction rules arbitrary: d) (auto simp: add_rule_def)

lemma foldl_add_pass_filter:
  "foldl (add_pass ad) d (filter (\<lambda>r. rule_id r \<notin> set blacklist) rules) = foldl (add_pass ad) d rules"
  by (induction rules arbitrary: d) (auto simp: add_pass_def)

lemma print_passes_eq:
  "print_passes opts pd st =
     st\<lparr>printed := printed st @ (if detailed_output opts then map pass_line (sorted_items pd) else [])\<rparr>"
  by (simp add: print_passes_def foldl_print)

lemma group_alerts_nonempty:
  "\<forall>item \<in> set (sorted_items (group_alerts alerts)). snd item \<noteq> []"
  using group_alerts_item by (auto simp: set_sorted_items)

lemma classify_counts:
  "fst (classify c opts alerts all_rules st) = None
   \<and> pass_count (snd (classify c opts alerts all_rules st)) = length (build_pass_dict (group_alerts alerts) all_rules)
   \<and> warn_count (snd (classify c opts alerts all_rules st))
       = warn_count st + count_action c (info_unspecified opts) ''WARN'' (map fst (sorted_items (group_alerts alerts)))
   \<and> fail_count (snd (classify c opts alerts all_rules st))
       = fail_count st + count_action c (info_unspecified opts) ''FAIL'' (map fst (sorted_items (group_alerts alerts)))
   \<and> info_count (snd (classify c opts alerts all_rules st))
       = info_count st + count_action c (info_unspecified opts) ''INFO'' (map fst (sorted_items (group_alerts alerts)))
   \<and> ignore_count (snd (classify c opts alerts all_rules st))
       = ignore_count st + count_action c (info_unspecified opts) ''IGNORE'' (map fst (sorted_items (group_alerts alerts)))
   \<and> opened (snd (classify c opts alerts all_rules st)) = opened st
   \<and> written (snd (classify c opts alerts all_rules st)) = written st
   \<and> warnings (snd (classify c opts alerts all_rules st)) = warnings st
   \<and> world (snd (classify c opts alerts all_rules st)) = world st"
  using report_rules_counts [OF group_alerts_nonempty, where c = c and opts = opts and st =
      "(print_passes opts (build_pass_dict (group_alerts alerts) all_rules) st)
         \<lparr>pass_count := length (build_pass_dict (group_alerts alerts) all_rules)\<rparr>"]
  by (simp add: classify_def Let_def print_passes_eq)

lemma classify_pass_count:
  "pass_count (snd (classify c opts alerts all_rules st)) = length (build_pass_dict (group_alerts alerts) all_rules)"
  using classify_counts [of c opts alerts all_rules st] by simp

text \<open>
  C6. No rule id of the blacklist (\<open>-1\<close>, \<open>50003\<close>, \<open>60000\<close>, \<open>60001\<close>) is the key of a
  group of alerts, of the dictionary of passing rules or of the dictionary the
  generated configuration is written from; \<^verbatim>\<open>pass_count\<close> is the size of the dictionary
  of passing rules; and the whole classification and the generated file are what
  they would be had the alerts and rules with such ids been left out of the input.
\<close>

theorem C6_blacklist_excluded:
  assumes "k \<in> set blacklist"
  shows "k \<notin> fst ` set (sorted_items (group_alerts alerts))
    \<and> k \<notin> fst ` set (sorted_items (build_pass_dict (group_alerts alerts) all_rules))
    \<and> pass_count (snd (classify c opts alerts all_rules st))
        = length (build_pass_dict (group_alerts alerts) all_rules)
    \<and> k \<notin> fst ` set (sorted_items (build_all_dict all_rules))
    \<and> classify c opts alerts all_rules st
        = classify c opts (filter (\<lambda>a. pluginId a \<notin> set blacklist) alerts)
            (filter (\<lambda>r. rule_id r \<notin> set blacklist) all_rules) st
    \<and> generate_lines (build_all_dict all_rules)
        = generate_header @ map generate_line
            (sorted_items (build_all_dict (filter (\<lambda>r. rule_id r \<notin> set blacklist) all_rules)))"
proof -
  have 1: "k \<notin> fst ` set (sorted_items (group_alerts alerts))"
    using assms by (simp add: set_sorted_items group_alerts_keys)
  have 2: "k \<notin> fst ` set (sorted_items (build_pass_dict (group_alerts alerts) all_rules))"
    using assms by (simp add: set_sorted_items build_pass_dict_keys)
  have 3: "k \<notin> fst ` set (sorted_items (build_all_dict all_rules))"
    using assms by (simp add: set_sorted_items build_all_dict_keys)
  have 4: "group_alerts (filter (\<lambda>a. pluginId a \<notin> set blacklist) alerts) = group_alerts alerts"
    by (simp add: group_alerts_def foldl_add_alert_filter)
  have 5: "build_pass_dict ad (filter (\<lambda>r. rule_id r \<notin> set blacklist) all_rules) = build_pass_dict ad all_rules" for ad
    by (simp add: build_pass_dict_def foldl_add_pass_filter)
  have 6: "build_all_dict (filter (\<lambda>r. rule_id r \<notin> set blacklist) all_rules) = build_all_dict all_rules"
    by (simp add: build_all_dict_def foldl_add_rule_filter)
  have 7: "classify c opts alerts all_rules st
        = classify c opts (filter (\<lambda>a. pluginId a \<notin> set blacklist) alerts)
            (filter (\<lambda>r. rule_id r \<notin> set blacklist) all_rules) st"
    by (simp add: classify_def 4 5)
  show ?thesis
    using 1 2 3 7 classify_pass_count [of c opts alerts all_rules st]
    by (simp only: 6 generate_lines_def) simp
qed

theorem C6_blacklist_excluded_witness:
  "''60001'' \<in> set blacklist
   \<and> sorted_items (group_alerts [alert_noise, alert1]) = [(''10010'', [alert1])]
   \<and> ''60001'' \<notin> fst ` set (sorted_items (group_alerts [alert_noise, alert1]))
   \<and> ''60001'' \<notin> fst ` set (sorted_items (build_all_dict [rule_noise, rule1]))"
proof -
  have h: "''60001'' \<in> set blacklist"
    by (simp add: blacklist_def)
  have e: "sorted_items (group_alerts [alert_noise, alert1]) = [(''10010'', [alert1])]"
    by code_simp
  show ?thesis
    using h e C6_blacklist_excluded [OF h, of "[alert_noise, alert1]" "[rule_noise, rule1]"
        empty_config base_options "init_st (0::nat)"]
    by blast
qed

subsection \<open>An entry that says IGNORE\<close>




subsection \<open>The exit code\<close>

lemma counters_call: "call f st = (r, st') \<Longrightarrow> counters st' = counters st"
  by (auto simp: call_def counters_def split: prod.splits)

lemma counters_simple:
  "counters (print s st) = counters st"
  "counters (log_warning s st) = counters st"
  "counters (do_sleep api n st) = counters st"
  "counters (usage st) = counters st"
  "counters (handlers r st) = counters st"
  by (auto simp: print_def log_warning_def do_sleep_def usage_def handlers_def counters_def split: option.splits)

lemma counters_open_w: "open_w api path st = (r, st') \<Longrightarrow> counters st' = counters st"
  by (auto simp: open_w_def counters_def dest!: counters_call split: prod.splits option.splits)

lemma counters_write_all: "write_all api path ss st = (r, st') \<Longrightarrow> counters st' = counters st"
proof (induction ss arbitrary: st)
  case Nil
  then show ?case by simp
next
  case (Cons s ss)
  obtain r1 st1 where c: "call (file_write api path s) st = (r1, st1)"
    by (cases "call (file_write api path s) st")
  have c1: "counters st1 = counters st"
    using counters_call [OF c] .
  show ?case
  proof (cases r1)
    case None
    with Cons.prems c have "write_all api path ss (st1\<lparr>written := written st1 @ [(path, s)]\<rparr>) = (r, st')"
      by simp
    from Cons.IH [OF this] c1 show ?thesis
      by (simp add: counters_def)
  next
    case (Some e)
    with Cons.prems c c1 show ?thesis by simp
  qed
qed


lemma counters_write_generate: "write_generate api opts d st = (r, st') \<Longrightarrow> counters st' = counters st"
  by (auto simp: write_generate_def simp del: write_all.simps
      dest!: counters_open_w counters_write_all
      split: prod.splits option.splits if_splits)

lemma counters_print_total: "print_total api opts st = (r, st') \<Longrightarrow> counters st' = counters st"
  by (auto simp: print_total_def counters_simple dest!: counters_call
      split: prod.splits sum.splits if_splits)

lemma exit_code_counters: "counters st = counters st' \<Longrightarrow> exit_code st = exit_code st'"
  by (simp add: counters_def exit_code_def)







subsection \<open>A scan that finds no URL\<close>

lemma call_only_world: "call f st = (r, st') \<Longrightarrow> st' = st\<lparr>world := world st'\<rparr>"
  by (auto simp: call_def split: prod.splits)

text \<open>
  C10. When the scanner reports no URL after the passive scan, the script logs one
  warning and goes straight to the shutdown: the block that groups the alerts, writes
  the generated configuration and the reports and prints the summary is not run.
  Nothing is printed, no file is opened or written, the five counters keep their
  values, and from the zero counters of the start the exit code is 3, whatever the
  rules, the configuration and the options are.
\<close>

theorem C10_no_urls:
  assumes "call (core_urls api) st = (Inr [], st1)"
    and "counters st = (0, 0, 0, 0, 0)"
  shows "results api opts c st = call (core_shutdown api) (log_warning no_urls_warning st1)
    \<and> counters (snd (results api opts c st)) = (0, 0, 0, 0, 0)
    \<and> printed (snd (results api opts c st)) = printed st
    \<and> opened (snd (results api opts c st)) = opened st
    \<and> written (snd (results api opts c st)) = written st
    \<and> warnings (snd (results api opts c st)) = warnings st @ [no_urls_warning]
    \<and> exit_code (handlers (fst (results api opts c st)) (snd (results api opts c st))) = 3"
proof -
  obtain r st2 where sh: "call (core_shutdown api) (log_warning no_urls_warning st1) = (r, st2)"
    by (cases "call (core_shutdown api) (log_warning no_urls_warning st1)")
  have e: "results api opts c st = (r, st2)"
    by (simp add: results_def assms(1) sh)
  have s1: "st1 = st\<lparr>world := world st1\<rparr>"
    using call_only_world [OF assms(1)] .
  have s2: "st2 = (log_warning no_urls_warning st1)\<lparr>world := world st2\<rparr>"
    using call_only_world [OF sh] .
  have p: "printed st2 = printed st \<and> opened st2 = opened st \<and> written st2 = written st
      \<and> warnings st2 = warnings st @ [no_urls_warning] \<and> counters st2 = counters st"
    by (subst s2, subst s1, subst (2) s2, subst (2) s1, subst (3) s2, subst (3) s1,
        subst (4) s2, subst (4) s1, subst (5) s2, subst (5) s1)
       (simp add: log_warning_def counters_def)
  have "counters (handlers r st2) = (0, 0, 0, 0, 0)"
    using p assms(2) by (simp add: counters_simple)
  then have x: "exit_code (handlers r st2) = 3"
    by (simp add: exit_code_def counters_def)
  show ?thesis
    using p x assms(2) by (simp add: e sh)
qed

theorem C10_no_urls_witness:
  "call (core_urls (scene_world no_url_scene)) (init_st 7) = (Inr [], init_st 7)
   \<and> counters (init_st (7::nat)) = (0, 0, 0, 0, 0)
   \<and> opened (snd (results (scene_world no_url_scene) all_file_options fail_config (init_st 7))) = []
   \<and> written (snd (results (scene_world no_url_scene) all_file_options fail_config (init_st 7))) = []
   \<and> exit_code (handlers (fst (results (scene_world no_url_scene) all_file_options fail_config (init_st 7)))
        (snd (results (scene_world no_url_scene) all_file_options fail_config (init_st 7)))) = 3
   \<and> main (scene_world no_url_scene) all_file_options 0
        = Some (Exit 3, (init_st 7)\<lparr>warnings := [no_urls_warning]\<rparr>)"
proof -
  have h1: "call (core_urls (scene_world no_url_scene)) (init_st 7) = (Inr [], init_st 7)"
    by (simp add: call_def scene_world_def no_url_scene_def base_scene_def init_st_def)
  have h2: "counters (init_st (7::nat)) = (0, 0, 0, 0, 0)"
    by (simp add: counters_def init_st_def)
  have m: "main (scene_world no_url_scene) all_file_options 0
        = Some (Exit 3, (init_st 7)\<lparr>warnings := [no_urls_warning]\<rparr>)"
    by code_simp
  have o: "opened (init_st (7::nat)) = [] \<and> written (init_st (7::nat)) = []"
    by (simp add: init_st_def)
  note t = C10_no_urls [OF h1 h2, of all_file_options fail_config]
  have a: "opened (snd (results (scene_world no_url_scene) all_file_options fail_config (init_st 7))) = opened (init_st (7::nat))"
    using t by blast
  have b: "written (snd (results (scene_world no_url_scene) all_file_options fail_config (init_st 7))) = written (init_st (7::nat))"
    using t by blast
  have x: "exit_code (handlers (fst (results (scene_world no_url_scene) all_file_options fail_config (init_st 7)))
        (snd (results (scene_world no_url_scene) all_file_options fail_config (init_st 7)))) = 3"
    using t by blast
  show ?thesis
    using h1 h2 m x by (simp only: a b o simp_thms)
qed

subsection \<open>A rule configuration that cannot be read\<close>

lemma load_config_url_failure:
  assumes "length (config_file opts) = 0" "length (config_url opts) > 0"
    and "call (read_url api (config_url opts)) st = (Inl e, st1)"
  shows "load_config api opts st
    = (Inl (Exit 3), log_warning (''Failed to read configs from '' @ config_url opts) st1)"
  using assms by (simp add: load_config_def)

text \<open>
  C8. The claim: an unreadable rule configuration ends the run with exit code 3, for
  a local file as for a URL. The URL branch does so (lemma \<open>load_config_url_failure\<close>:
  its handler logs a warning and calls \<^verbatim>\<open>sys.exit(3)\<close>). The file branch has no
  handler: the exception of \<^verbatim>\<open>open\<close> leaves \<^verbatim>\<open>main\<close> uncaught, before the scanner is
  started, and the interpreter ends the process with status 1, the code the script
  documents for a failing rule.
\<close>

theorem C8_unreadable_file_uncaught:
  assumes "length (target opts) \<noteq> 0"
    and "startswith (target opts) ''http://'' \<or> startswith (target opts) ''https://''"
    and "length (config_file opts) > 0"
    and "call (path_exists api ''/zap/wrk/'') (init_st w) = (True, st1)"
    and "choose_port api st1 = Some st2"
    and "call (read_file api (''/zap/wrk/'' @ config_file opts)) st2 = (Inl e, st3)"
  shows "main api opts w = Some (Uncaught e, st3) \<and> process_status (Uncaught e) = 1"
  using assms by (simp add: main_def file_option_def load_config_def Let_def)

theorem C8_unreadable_file_uncaught_witness:
  "length (target missing_file_options) \<noteq> 0
   \<and> startswith (target missing_file_options) ''http://''
   \<and> length (config_file missing_file_options) > 0
   \<and> main (scene_world missing_file_scene) missing_file_options 0 = Some (Uncaught IOError, init_st 0)
   \<and> process_status (Uncaught IOError) = 1
   \<and> main (scene_world missing_file_scene)
        (base_options\<lparr>config_url := ''http://example.com/missing.conf''\<rparr>) 0
      = Some (Exit 3, (init_st 0)\<lparr>warnings := [''Failed to read configs from http://example.com/missing.conf'']\<rparr>)"
proof -
  let ?W = "scene_world missing_file_scene"
  have h1: "length (target missing_file_options) \<noteq> 0"
    by (simp add: missing_file_options_def base_options_def)
  have h2: "startswith (target missing_file_options) ''http://''"
    by (simp add: missing_file_options_def base_options_def)
  have h3: "length (config_file missing_file_options) > 0"
    by (simp add: missing_file_options_def)
  have h4: "call (path_exists ?W ''/zap/wrk/'') (init_st 0) = (True, init_st 0)"
    by (simp add: call_def scene_world_def init_st_def)
  have h5: "choose_port ?W (init_st 0) = Some (init_st 0)"
    by (subst choose_port.simps) (simp add: call_def scene_world_def init_st_def)
  have h6: "call (read_file ?W (''/zap/wrk/'' @ config_file missing_file_options)) (init_st 0) = (Inl IOError, init_st 0)"
    by (simp add: call_def scene_world_def init_st_def missing_file_scene_def base_scene_def)
  have u: "main ?W (base_options\<lparr>config_url := ''http://example.com/missing.conf''\<rparr>) 0
      = Some (Exit 3, (init_st 0)\<lparr>warnings := [''Failed to read configs from http://example.com/missing.conf'']\<rparr>)"
    by code_simp
  show ?thesis
    using h1 h2 h3 u C8_unreadable_file_uncaught [OF h1 disjI1 [OF h2] h3 h4 h5 h6]
    by simp
qed

subsection \<open>Lines of the rule configuration\<close>

lemma split_at_None: "split_at sep s = None \<longleftrightarrow> sep \<notin> set s"
  by (induction s) (auto split: option.splits)

lemma split_at_first: "sep \<notin> set a \<Longrightarrow> split_at sep (a @ sep # b) = Some (a, b)"
  by (induction a) auto

lemma py_split_no_sep: "sep \<notin> set s \<Longrightarrow> py_split sep n s = [s]"
  by (cases n) (auto simp: split_at_None [THEN iffD2])

lemma py_split_three:
  "TAB \<notin> set key \<Longrightarrow> TAB \<notin> set val \<Longrightarrow>
   py_split TAB 2 (key @ [TAB] @ val @ [TAB] @ optional) = [key, val, optional]"
  by (simp add: numeral_2_eq_2 split_at_first)

lemma py_split_all_two:
  "sep \<notin> set a \<Longrightarrow> sep \<notin> set b \<Longrightarrow> py_split_all sep (a @ [sep] @ b) = [a, b]"
  by (simp add: py_split_all_def split_at_first py_split_no_sep)

lemma split_at_count:
  "split_at sep s = Some (a, b) \<Longrightarrow>
   length (filter (\<lambda>x. x = sep) s) = Suc (length (filter (\<lambda>x. x = sep) b))"
  by (induction s arbitrary: a) (auto split: if_splits option.splits)

lemma length_py_split:
  "length (py_split sep n s) = Suc (min n (length (filter (\<lambda>x. x = sep) s)))"
proof (induction n arbitrary: s)
  case 0
  then show ?case by simp
next
  case (Suc n)
  show ?case
  proof (cases "split_at sep s")
    case None
    then have "sep \<notin> set s" by (simp add: split_at_None)
    then have "filter (\<lambda>x. x = sep) s = []" by (auto simp: filter_empty_conv)
    with None show ?thesis by simp
  next
    case (Some p)
    obtain a b where p: "p = (a, b)" by (cases p)
    from Some p split_at_count [of sep s a b] Suc.IH [of b] show ?thesis
      by simp
  qed
qed

lemma config_line_few_fields:
  assumes "length (filter (\<lambda>x. x = TAB) line) < 2" "\<not> startswith line ''#''" "length line > 1"
  shows "config_line line c = Inl ValueError"
proof -
  have "length (py_split TAB 2 line) < 3"
    using assms(1) by (simp add: length_py_split)
  then have "(case py_split TAB 2 line of [key, val, optional] \<Rightarrow> f key val optional | _ \<Rightarrow> Inl ValueError) = Inl ValueError" for f :: "string \<Rightarrow> string \<Rightarrow> string \<Rightarrow> py_error + config"
    by (auto split: list.splits)
  then show ?thesis
    using assms(2,3) by (simp add: config_line_def)
qed

lemma config_line_well_formed:
  assumes "TAB \<notin> set key" "TAB \<notin> set val"
    and "TAB \<in> set optional \<Longrightarrow> \<exists>ign msg. rstrip optional = ign @ [TAB] @ msg \<and> TAB \<notin> set ign \<and> TAB \<notin> set msg"
    and "\<not> startswith (key @ [TAB] @ val @ [TAB] @ optional) ''#''"
  shows "\<exists>c'. config_line (key @ [TAB] @ val @ [TAB] @ optional) c = Inr c'
           \<and> config_dict c' = (config_dict c)(key \<mapsto> val)"
proof (cases "TAB \<in> set optional")
  case True
  then obtain ign msg where m: "rstrip optional = ign @ [TAB] @ msg" "TAB \<notin> set ign" "TAB \<notin> set msg"
    using assms(3) by blast
  have "py_split_all TAB (rstrip optional) = [ign, msg]"
    using m py_split_all_two [of TAB ign msg] by simp
  then show ?thesis
    using assms(4) True py_split_three [OF assms(1,2), of optional]
    by (simp add: config_line_def Let_def)
next
  case False
  then show ?thesis
    using assms(4) py_split_three [OF assms(1,2), of optional]
    by (simp add: config_line_def Let_def)
qed

text \<open>
  C3, as stated, fails: a line with fewer than three fields separated by tabs makes
  the tuple assignment of line 162 raise \<^verbatim>\<open>ValueError\<close>; read from a file the run ends
  there with the uncaught exception, read from a URL it ends with exit code 3.
\<close>

theorem C3_malformed_line_aborts:
  "config_line one_field_line empty_config = Inl ValueError
   \<and> config_line two_field_line empty_config = Inl ValueError
   \<and> main (scene_world bad_policy_scene) policy_file_options 0 = Some (Uncaught ValueError, init_st 0)
   \<and> main (scene_world bad_policy_scene) (base_options\<lparr>config_url := ''http://example.com/p''\<rparr>) 0
       = Some (Exit 3, (init_st 0)\<lparr>warnings := [''Failed to read configs from http://example.com/p'']\<rparr>)"
proof -
  have a: "config_line one_field_line empty_config = Inl ValueError"
    by (rule config_line_few_fields) (simp_all add: one_field_line_def TAB_def NL_def)
  have b: "config_line two_field_line empty_config = Inl ValueError"
    by (rule config_line_few_fields) (simp_all add: two_field_line_def TAB_def NL_def)
  have c: "main (scene_world bad_policy_scene) policy_file_options 0 = Some (Uncaught ValueError, init_st 0)"
    by code_simp
  have d: "main (scene_world bad_policy_scene) (base_options\<lparr>config_url := ''http://example.com/p''\<rparr>) 0
       = Some (Exit 3, (init_st 0)\<lparr>warnings := [''Failed to read configs from http://example.com/p'']\<rparr>)"
    by code_simp
  show ?thesis
    using a b c d by simp
qed

text \<open>
  C3, amended. A line that is not a comment and has at least three fields separated
  by tabs (its remainder holding, if any tab, exactly one once trailing blanks are
  stripped) never aborts the run, whatever its action is: the action is stored as it
  is, and an action outside \<open>IGNORE\<close>, \<open>INFO\<close>, \<open>WARN\<close>, \<open>FAIL\<close> is classified exactly as
  an entry \<open>WARN\<close> is, which is \<open>WARN\<close> when \<^verbatim>\<open>-i\<close> is not given. A line that is not a
  comment, is longer than one character and has fewer than three such fields is not
  recovered: it raises \<^verbatim>\<open>ValueError\<close> and the reading of the configuration stops.
\<close>

theorem C3_well_formed_lines_only:
  assumes "TAB \<notin> set key" "TAB \<notin> set val"
    and "TAB \<in> set optional \<Longrightarrow> \<exists>ign msg. rstrip optional = ign @ [TAB] @ msg \<and> TAB \<notin> set ign \<and> TAB \<notin> set msg"
    and "\<not> startswith (key @ [TAB] @ val @ [TAB] @ optional) ''#''"
    and "val \<notin> {''IGNORE'', ''INFO'', ''WARN'', ''FAIL''}"
    and "length (filter (\<lambda>x. x = TAB) bad) < 2" "\<not> startswith bad ''#''" "length bad > 1"
  shows "(\<exists>c'. config_line (key @ [TAB] @ val @ [TAB] @ optional) c = Inr c'
            \<and> config_dict c' = (config_dict c)(key \<mapsto> val)
            \<and> resolved_action c' iu key
                = resolved_action (c'\<lparr>config_dict := (config_dict c')(key \<mapsto> ''WARN'')\<rparr>) iu key
            \<and> resolved_action c' False key = ''WARN'')
    \<and> config_line bad c = Inl ValueError
    \<and> config_lines (bad # rest) c = Inl ValueError"
proof -
  obtain c' where c': "config_line (key @ [TAB] @ val @ [TAB] @ optional) c = Inr c'"
      "config_dict c' = (config_dict c)(key \<mapsto> val)"
    using config_line_well_formed [OF assms(1-4), of c] by blast
  have r: "resolved_action c' iu key
                = resolved_action (c'\<lparr>config_dict := (config_dict c')(key \<mapsto> ''WARN'')\<rparr>) iu key
            \<and> resolved_action c' False key = ''WARN''"
    using assms(5) c'(2) by (simp add: resolved_action_def rule_action_def)
  have b: "config_line bad c = Inl ValueError"
    using config_line_few_fields [OF assms(6-8)] .
  show ?thesis
    using c' r b by simp
qed

theorem C3_well_formed_lines_only_witness:
  "TAB \<notin> set ''10010'' \<and> TAB \<notin> set ''BOGUS'' \<and> TAB \<in> set bogus_optional
   \<and> rstrip bogus_optional = ''(Cookie No HttpOnly Flag)'' @ [TAB] @ ''ask the team''
   \<and> ''BOGUS'' \<notin> {''IGNORE'', ''INFO'', ''WARN'', ''FAIL''}
   \<and> length (filter (\<lambda>x. x = TAB) two_field_line) < 2 \<and> \<not> startswith two_field_line ''#''
   \<and> length two_field_line > 1
   \<and> (\<exists>c'. config_line (''10010'' @ [TAB] @ ''BOGUS'' @ [TAB] @ bogus_optional) empty_config = Inr c'
          \<and> config_dict c' = [''10010'' \<mapsto> ''BOGUS'']
          \<and> resolved_action c' False ''10010'' = ''WARN'')
   \<and> config_lines [two_field_line] empty_config = Inl ValueError"
proof -
  have h1: "TAB \<notin> set ''10010''" by (simp add: TAB_def)
  have h2: "TAB \<notin> set ''BOGUS''" by (simp add: TAB_def)
  have t: "TAB \<in> set bogus_optional" by (simp add: bogus_optional_def)
  have r: "rstrip bogus_optional = ''(Cookie No HttpOnly Flag)'' @ [TAB] @ ''ask the team''"
    by (simp add: bogus_optional_def rstrip_def py_isspace_def TAB_def NL_def)
  have h3: "TAB \<in> set bogus_optional \<Longrightarrow>
      \<exists>ign msg. rstrip bogus_optional = ign @ [TAB] @ msg \<and> TAB \<notin> set ign \<and> TAB \<notin> set msg"
  proof -
    have "rstrip bogus_optional = ''(Cookie No HttpOnly Flag)'' @ [TAB] @ ''ask the team''
        \<and> TAB \<notin> set ''(Cookie No HttpOnly Flag)'' \<and> TAB \<notin> set ''ask the team''"
      using r by (simp add: TAB_def)
    then show ?thesis by blast
  qed
  have h4: "\<not> startswith (''10010'' @ [TAB] @ ''BOGUS'' @ [TAB] @ bogus_optional) ''#''" by simp
  have h5: "''BOGUS'' \<notin> {''IGNORE'', ''INFO'', ''WARN'', ''FAIL''}" by simp
  have h6: "length (filter (\<lambda>x. x = TAB) two_field_line) < 2"
    by (simp add: two_field_line_def TAB_def NL_def)
  have h7: "\<not> startswith two_field_line ''#''" by (simp add: two_field_line_def)
  have h8: "length two_field_line > 1" by (simp add: two_field_line_def)
  have e: "config_dict empty_config = Map.empty" by (simp add: empty_config_def)
  show ?thesis
    using h1 h2 t r h5 h6 h7 h8
      C3_well_formed_lines_only [OF h1 h2 h3 h4 h5 h6 h7 h8, of empty_config False "[]"]
    by (simp only: e) blast
qed

subsection \<open>Waiting for the scanner to start\<close>

lemma wait_for_start_all_fail:
  assumes "\<forall>k<n. fst (core_version api (after_polls api k (world st))) = Inl IOError"
  shows "wait_for_start api n st = (None, st\<lparr>world := after_polls api n (world st)\<rparr>)"
  using assms
proof (induction n arbitrary: st)
  case 0
  then show ?case by simp
next
  case (Suc n)
  have f0: "fst (core_version api (world st)) = Inl IOError"
    using Suc.prems by (auto dest: spec [of _ 0])
  let ?st1 = "do_sleep api 1 (st\<lparr>world := snd (core_version api (world st))\<rparr>)"
  have w1: "world ?st1 = sleep api 1 (snd (core_version api (world st)))"
    by (simp add: do_sleep_def)
  have "\<forall>k<n. fst (core_version api (after_polls api k (world ?st1))) = Inl IOError"
  proof (intro allI impI)
    fix k assume "k < n"
    then have "Suc k < Suc n" by simp
    with Suc.prems have "fst (core_version api (after_polls api (Suc k) (world st))) = Inl IOError"
      by blast
    then show "fst (core_version api (after_polls api k (world ?st1))) = Inl IOError"
      by (simp add: do_sleep_def)
  qed
  from Suc.IH [OF this] have ih: "wait_for_start api n ?st1 = (None, ?st1\<lparr>world := after_polls api n (world ?st1)\<rparr>)" .
  have c: "call (core_version api) st = (Inl IOError, st\<lparr>world := snd (core_version api (world st))\<rparr>)"
    using f0 by (cases "core_version api (world st)") (simp add: call_def)
  show ?case
    using ih by (simp add: c do_sleep_def)
qed

lemma after_polls_scene: "after_polls (scene_world sc) k w = w + k"
  by (induction k arbitrary: w) (simp_all add: scene_world_def)

text \<open>
  C4, as stated, fails: the loop of line 207 has no \<^verbatim>\<open>else\<close> branch, so a scanner that
  has not answered any of the 120 probes is not reported; the script goes on to open
  the target. With a scanner that starts to answer at second 120, just after the last
  probe and sleep, all 120 probes raise \<^verbatim>\<open>IOError\<close> and the run still spiders the
  target, reports a passing rule and ends with exit code 0.
\<close>

theorem C4_exhausted_probe_goes_on:
  "wait_for_start (scene_world late_scene) timeout (init_st 0) = (None, (init_st 0)\<lparr>world := 120\<rparr>)
   \<and> fst (core_version (scene_world late_scene) 119) = Inl IOError
   \<and> map_option fst (main (scene_world late_scene) base_options 0) = Some (Exit 0)
   \<and> map_option (printed \<circ> snd) (main (scene_world late_scene) base_options 0)
       = Some [''Total of 1 URLs'', ''PASS: Incomplete or No Cache-control [10015]'',
               ''FAIL: 0'' @ [TAB] @ ''WARN: 0'' @ [TAB] @ ''INFO: 0'' @ [TAB] @ ''IGNORE: 0'' @ [TAB] @ ''PASS: 1'']"
  by code_simp

text \<open>
  C4, amended. The probe is made at most 120 times, with a sleep of one second after
  each probe that raises \<^verbatim>\<open>IOError\<close>. When all 120 probes have raised it, the loop
  ends without an error of its own and the script goes on to open the target. If that
  call raises, because the scanner is still not there, the exception is caught by the
  handlers at the end of \<^verbatim>\<open>main\<close>, no counter has changed, and the run ends with exit
  code 3.
\<close>

theorem C4_probe_bound:
  assumes "\<forall>k<timeout. fst (core_version api (after_polls api k (world st))) = Inl IOError"
    and "fst (urlopen api (target opts) (after_polls api timeout (world st))) = Some e"
    and "counters st = (0, 0, 0, 0, 0)"
  shows "timeout = 120
    \<and> wait_for_start api timeout st = (None, st\<lparr>world := after_polls api timeout (world st)\<rparr>)
    \<and> scan_body api opts c st = after_start api opts c (st\<lparr>world := after_polls api timeout (world st)\<rparr>)
    \<and> scan_body api opts c st
        = Some (Some e, st\<lparr>world := snd (urlopen api (target opts) (after_polls api timeout (world st)))\<rparr>)
    \<and> exit_code (handlers (Some e)
          (st\<lparr>world := snd (urlopen api (target opts) (after_polls api timeout (world st)))\<rparr>)) = 3"
proof -
  let ?w = "after_polls api timeout (world st)"
  have w: "wait_for_start api timeout st = (None, st\<lparr>world := ?w\<rparr>)"
    using wait_for_start_all_fail [OF assms(1)] .
  have s: "scan_body api opts c st = after_start api opts c (st\<lparr>world := ?w\<rparr>)"
    by (simp add: scan_body_def w)
  have u: "call (urlopen api (target opts)) (st\<lparr>world := ?w\<rparr>)
      = (Some e, st\<lparr>world := snd (urlopen api (target opts) ?w)\<rparr>)"
    using assms(2) by (cases "urlopen api (target opts) ?w") (simp add: call_def)
  have a: "after_start api opts c (st\<lparr>world := ?w\<rparr>)
      = Some (Some e, st\<lparr>world := snd (urlopen api (target opts) ?w)\<rparr>)"
    by (simp add: after_start_def u)
  have "counters (handlers (Some e) (st\<lparr>world := snd (urlopen api (target opts) ?w)\<rparr>)) = (0, 0, 0, 0, 0)"
    using assms(3) by (simp add: counters_simple) (simp add: counters_def)
  then have x: "exit_code (handlers (Some e) (st\<lparr>world := snd (urlopen api (target opts) ?w)\<rparr>)) = 3"
    by (simp add: exit_code_def counters_def)
  show ?thesis
    using w s a x by (simp add: timeout_def)
qed

theorem C4_probe_bound_witness:
  "fst (core_version (scene_world never_scene) (after_polls (scene_world never_scene) 119 (world (init_st 0)))) = Inl IOError
   \<and> fst (urlopen (scene_world never_scene) (target base_options)
        (after_polls (scene_world never_scene) timeout (world (init_st 0)))) = Some IOError
   \<and> counters (init_st (0::nat)) = (0, 0, 0, 0, 0)
   \<and> scan_body (scene_world never_scene) base_options empty_config (init_st 0)
       = Some (Some IOError, (init_st 0)\<lparr>world := 120\<rparr>)
   \<and> main (scene_world never_scene) base_options 0
       = Some (Exit 3, (init_st 120)\<lparr>warnings := [''I/O error'']\<rparr>)"
proof -
  let ?W = "scene_world never_scene"
  have h1: "\<forall>k<timeout. fst (core_version ?W (after_polls ?W k (world (init_st 0)))) = Inl IOError"
    unfolding after_polls_scene
    by (simp add: timeout_def init_st_def scene_world_def never_scene_def)
  have h1': "fst (core_version ?W (after_polls ?W 119 (world (init_st 0)))) = Inl IOError"
    using h1 by (simp add: timeout_def)
  have h2: "fst (urlopen ?W (target base_options) (after_polls ?W timeout (world (init_st 0)))) = Some IOError"
    unfolding after_polls_scene
    by (simp add: timeout_def init_st_def scene_world_def never_scene_def)
  have h3: "counters (init_st (0::nat)) = (0, 0, 0, 0, 0)"
    by (simp add: counters_def init_st_def)
  have w: "(init_st 0)\<lparr>world := snd (urlopen ?W (target base_options) (after_polls ?W timeout (world (init_st 0))))\<rparr>
      = (init_st 0)\<lparr>world := 120\<rparr>"
    unfolding after_polls_scene
    by (simp add: timeout_def init_st_def scene_world_def)
  have m: "main ?W base_options 0 = Some (Exit 3, (init_st 120)\<lparr>warnings := [''I/O error'']\<rparr>)"
    by code_simp
  note t = C4_probe_bound [OF h1 h2 h3, of empty_config]
  have "scan_body ?W base_options empty_config (init_st 0)
      = Some (Some IOError, (init_st 0)\<lparr>world := snd (urlopen ?W (target base_options) (after_polls ?W timeout (world (init_st 0))))\<rparr>)"
    using t by blast
  then have s: "scan_body ?W base_options empty_config (init_st 0) = Some (Some IOError, (init_st 0)\<lparr>world := 120\<rparr>)"
    by (simp only: w)
  show ?thesis
    using h1' h2 h3 s m by simp
qed

end
